theory Spec2Isabelle
  imports Main
begin

section \<open>The place record delivered by the autocomplete widget\<close>

text \<open>
  \<^verbatim>\<open>frontend/static/js/google_places.js\<close> reads five things from the object returned by
  \<^verbatim>\<open>autocomplete.getPlace()\<close>: \<^verbatim>\<open>place_id\<close>, \<^verbatim>\<open>name\<close>, \<^verbatim>\<open>geometry.location.lat()\<close> and
  \<^verbatim>\<open>.lng()\<close>, and \<^verbatim>\<open>address_components\<close> (each with \<^verbatim>\<open>types\<close> and \<^verbatim>\<open>long_name\<close>).
  A property the code tests or may find \<^verbatim>\<open>undefined\<close> is an \<open>option\<close>; \<open>None\<close> is
  \<^verbatim>\<open>undefined\<close>.
\<close>

text \<open>
  A JavaScript Number. The code does no arithmetic on coordinates: it copies them into the
  payload and converts them to text inside a template literal. A finite Number is
  therefore kept as a decimal numeral \<open>Decimal m e\<close>, standing for \<open>m * 10 ^ e\<close>, which is
  the decimal that \<^verbatim>\<open>Number::toString\<close> reads its digits from.
\<close>

datatype number = NaN | PosInfinity | NegInfinity | Decimal int int

record component =
  long_name :: string
  types :: "string list"

record latlng =
  lat :: number
  lng :: number

record geometry =
  location :: latlng

record place =
  place_id :: "string option"
  name :: string
  geometry :: "geometry option"
  address_components :: "component list option"

datatype error = TypeError

section \<open>Conversion of a Number to text\<close>

text \<open>The decimal digit \<open>d < 10\<close> as a character.\<close>

definition digit_char :: "nat \<Rightarrow> char" where
  "digit_char d = ''0123456789'' ! d"

text \<open>The decimal digits of a natural number, most significant first.\<close>

fun digits :: "nat \<Rightarrow> string" where
  "digits n = (if n < 10 then [digit_char n] else digits (n div 10) @ [digit_char (n mod 10)])"

declare digits.simps [simp del]

text \<open>
  \<^verbatim>\<open>Number::toString\<close> takes the digits \<open>s\<close> with \<open>k\<close> as small as possible: trailing
  zeros of the mantissa move into the exponent.
\<close>

function strip_zeros :: "nat \<Rightarrow> int \<Rightarrow> nat \<times> int" where
  "strip_zeros s e = (if s \<noteq> 0 \<and> s mod 10 = 0 then strip_zeros (s div 10) (e + 1) else (s, e))"
  by pat_completeness auto
termination
  by (relation "measure (\<lambda>(s, e). s)") auto

declare strip_zeros.simps [simp del]

text \<open>
  \<^verbatim>\<open>Number::toString(x)\<close> of ECMAScript for a positive finite \<open>x = s * 10 ^ e\<close>, radix 10:
  with \<open>k\<close> digits and \<open>n = k + e\<close>, plain digits padded with zeros when \<open>k \<le> n \<le> 21\<close>,
  a decimal point inside the digits when \<open>0 < n \<le> 21\<close>, a leading \<^verbatim>\<open>0.\<close> when
  \<open>-6 < n \<le> 0\<close>, and exponential notation otherwise.
\<close>

definition positive_toString :: "nat \<Rightarrow> int \<Rightarrow> string" where
  "positive_toString s e =
     (let (s', e') = strip_zeros s e;
          ds = digits s';
          k = int (length ds);
          n = k + e'
      in if k \<le> n \<and> n \<le> 21 then ds @ replicate (nat (n - k)) CHR ''0''
         else if 0 < n \<and> n \<le> 21 then take (nat n) ds @ ''.'' @ drop (nat n) ds
         else if - 6 < n \<and> n \<le> 0 then ''0.'' @ replicate (nat (- n)) CHR ''0'' @ ds
         else let ex = n - 1;
                  sgn = (if ex < 0 then ''-'' else ''+'');
                  es = digits (nat \<bar>ex\<bar>)
              in if k = 1 then ds @ ''e'' @ sgn @ es
                 else take 1 ds @ ''.'' @ drop 1 ds @ ''e'' @ sgn @ es)"

fun Number_toString :: "number \<Rightarrow> string" where
  "Number_toString NaN = ''NaN''"
| "Number_toString PosInfinity = ''Infinity''"
| "Number_toString NegInfinity = ''-Infinity''"
| "Number_toString (Decimal m e) =
     (if m = 0 then ''0''
      else if m < 0 then ''-'' @ positive_toString (nat (- m)) e
      else positive_toString (nat m) e)"

section \<open>The two extractors\<close>

text \<open>\<^verbatim>\<open>Array.prototype.includes\<close> on an array of strings.\<close>

definition array_includes :: "string list \<Rightarrow> string \<Rightarrow> bool" where
  "array_includes xs x = (x \<in> set xs)"

text \<open>
  \<^verbatim>\<open>extractCity\<close>, lines 41 to 56: the \<^verbatim>\<open>for ... of\<close> loop with its \<^verbatim>\<open>break\<close> is a
  recursion over the remaining components that carries the variable \<^verbatim>\<open>city\<close>.
\<close>

fun extractCity_loop :: "component list \<Rightarrow> string \<Rightarrow> string" where
  "extractCity_loop [] city = city"
| "extractCity_loop (c # cs) city =
     (if array_includes (types c) ''locality'' \<or>
         array_includes (types c) ''administrative_area_level_1''
      then long_name c
      else extractCity_loop cs city)"

definition extractCity :: "place \<Rightarrow> string" where
  "extractCity p =
     (let city = '''' in
      case address_components p of
        None \<Rightarrow> city
      | Some cs \<Rightarrow> extractCity_loop cs city)"

text \<open>\<^verbatim>\<open>extractCountry\<close>, lines 58 to 70, has the same shape with one tag.\<close>

fun extractCountry_loop :: "component list \<Rightarrow> string \<Rightarrow> string" where
  "extractCountry_loop [] country = country"
| "extractCountry_loop (c # cs) country =
     (if array_includes (types c) ''country''
      then long_name c
      else extractCountry_loop cs country)"

definition extractCountry :: "place \<Rightarrow> string" where
  "extractCountry p =
     (let country = '''' in
      case address_components p of
        None \<Rightarrow> country
      | Some cs \<Rightarrow> extractCountry_loop cs country)"

section \<open>The listener for \<^verbatim>\<open>place_changed\<close>\<close>

text \<open>
  Reading \<^verbatim>\<open>place.geometry.location\<close> throws a \<^verbatim>\<open>TypeError\<close> when \<^verbatim>\<open>place.geometry\<close> is
  \<^verbatim>\<open>undefined\<close>.
\<close>

definition geometry_location :: "place \<Rightarrow> error + latlng" where
  "geometry_location p =
     (case geometry p of None \<Rightarrow> Inl TypeError | Some g \<Rightarrow> Inr (location g))"

text \<open>
  Lines 14 to 18. \<^verbatim>\<open>a || b\<close> yields \<open>a\<close> when \<open>a\<close> is truthy and evaluates \<open>b\<close> only
  otherwise; \<^verbatim>\<open>undefined\<close> and the empty string are the falsy values of a property that is
  a string when present.
\<close>

definition truthy :: "string option \<Rightarrow> bool" where
  "truthy v = (case v of None \<Rightarrow> False | Some s \<Rightarrow> s \<noteq> [])"

definition fallback_key :: "place \<Rightarrow> error + string" where
  "fallback_key p =
     (case geometry_location p of
        Inl e \<Rightarrow> Inl e
      | Inr l \<Rightarrow> Inr (name p @ ''_'' @ Number_toString (lat l) @ ''_'' @ Number_toString (lng l)))"

definition placeIdentifier :: "place \<Rightarrow> error + string" where
  "placeIdentifier p =
     (if truthy (place_id p) then Inr (the (place_id p)) else fallback_key p)"

text \<open>The object literal of lines 24 to 33, sent to the backend.\<close>

record placeData =
  destination_name :: string
  city :: string
  country :: string
  coordinates :: "number list"
  payload_place_id :: "string option"

definition placeData_of :: "place \<Rightarrow> error + placeData" where
  "placeData_of p =
     (case geometry_location p of
        Inl e \<Rightarrow> Inl e
      | Inr l \<Rightarrow>
          Inr \<lparr>destination_name = name p,
               city = extractCity p,
               country = extractCountry p,
               coordinates = [lat l, lng l],
               payload_place_id = place_id p\<rparr>)"

text \<open>
  The state of one page session: the set \<^verbatim>\<open>seenPlaces\<close> enclosed by the listener, and
  the calls made to the backend so far, oldest first.
\<close>

record session =
  seenPlaces :: "string set"
  backend :: "placeData list"

text \<open>
  Modelled from the spec: \<^verbatim>\<open>sendPlaceToBackend\<close> is called at line 36 and defined in no
  file of the repository; the backend collaborator accepts the payload, and its response
  or failure is not consumed. One call is one entry of the log.
\<close>

definition sendPlaceToBackend :: "placeData \<Rightarrow> session \<Rightarrow> session" where
  "sendPlaceToBackend d s = s\<lparr>backend := backend s @ [d]\<rparr>"

text \<open>
  Lines 1 to 8: installing the handler creates the empty set. Nothing has been sent yet.
\<close>

definition initializeGooglePlaces :: session where
  "initializeGooglePlaces = \<lparr>seenPlaces = {}, backend = []\<rparr>"

text \<open>
  Lines 10 to 38, for the place that \<^verbatim>\<open>getPlace()\<close> returns. The result is the session
  after the listener has run, together with the exception it threw, if any: a throw
  keeps the mutations made before it.
\<close>

definition place_changed :: "place \<Rightarrow> session \<Rightarrow> error option \<times> session" where
  "place_changed p s =
     (case placeIdentifier p of
        Inl e \<Rightarrow> (Some e, s)
      | Inr k \<Rightarrow>
          if k \<notin> seenPlaces s then
            (let s1 = s\<lparr>seenPlaces := insert k (seenPlaces s)\<rparr> in
             case placeData_of p of
               Inl e \<Rightarrow> (Some e, s1)
             | Inr d \<Rightarrow> (None, sendPlaceToBackend d s1))
          else (None, s))"

text \<open>
  A sequence of selections in one session. An exception thrown by the listener goes to
  the widget that dispatched the event; the page, and the set, live on.
\<close>

fun selections :: "place list \<Rightarrow> session \<Rightarrow> session" where
  "selections [] s = s"
| "selections (p # ps) s = selections ps (snd (place_changed p s))"

section \<open>Notions used to state the properties\<close>

text \<open>A component is tagged \<open>t\<close> when \<open>t\<close> is among its category tags.\<close>

definition tagged :: "string \<Rightarrow> component \<Rightarrow> bool" where
  "tagged t c = array_includes (types c) t"

text \<open>
  The number of calls to the backend made, during a sequence of selections, by the events
  whose computed identifier is \<open>k\<close>.
\<close>

fun submissions_for :: "string \<Rightarrow> place list \<Rightarrow> session \<Rightarrow> nat" where
  "submissions_for k [] s = 0"
| "submissions_for k (p # ps) s =
     (if placeIdentifier p = Inr k
      then length (backend (snd (place_changed p s))) - length (backend s)
      else 0)
     + submissions_for k ps (snd (place_changed p s))"

subsection \<open>Sample records\<close>

definition avenue :: component where
  "avenue = \<lparr>long_name = ''Avenue Gustave Eiffel'', types = [''route'']\<rparr>"

definition paris :: component where
  "paris = \<lparr>long_name = ''Paris'', types = [''locality'', ''political'']\<rparr>"

definition ile_de_france :: component where
  "ile_de_france =
     \<lparr>long_name = ''Ile-de-France'', types = [''administrative_area_level_1'', ''political'']\<rparr>"

definition france :: component where
  "france = \<lparr>long_name = ''France'', types = [''country'', ''political'']\<rparr>"

text \<open>The record of the first scenario of the specification.\<close>

definition eiffel :: place where
  "eiffel =
     \<lparr>place_id = Some ''p1'',
      name = ''Eiffel Tower'',
      geometry = Some \<lparr>location = \<lparr>lat = Decimal 488584 (- 4), lng = Decimal 22945 (- 4)\<rparr>\<rparr>,
      address_components =
        Some [\<lparr>long_name = ''Paris'', types = [''locality'']\<rparr>,
              \<lparr>long_name = ''France'', types = [''country'']\<rparr>]\<rparr>"

text \<open>The same record in full address form, and without its geometry.\<close>

definition eiffel_full_address :: place where
  "eiffel_full_address =
     eiffel\<lparr>address_components := Some [avenue, paris, ile_de_france, france]\<rparr>"

definition eiffel_no_geometry :: place where
  "eiffel_no_geometry = eiffel\<lparr>geometry := None\<rparr>"

text \<open>The record of the second scenario: no \<^verbatim>\<open>place_id\<close>, name X, at (1.0, 2.0).\<close>

definition place_X :: place where
  "place_X =
     \<lparr>place_id = None,
      name = ''X'',
      geometry = Some \<lparr>location = \<lparr>lat = Decimal 10 (- 1), lng = Decimal 20 (- 1)\<rparr>\<rparr>,
      address_components = None\<rparr>"

definition place_X_empty_id :: place where
  "place_X_empty_id = place_X\<lparr>place_id := Some ''''\<rparr>"

text \<open>
  What the widget returns when the user presses Enter on text that matches no suggestion:
  the typed text as \<^verbatim>\<open>name\<close> and nothing else.
\<close>

definition typed_text :: place where
  "typed_text =
     \<lparr>place_id = None, name = ''Eifel'', geometry = None, address_components = None\<rparr>"

text \<open>Two more address forms: the region listed before the town, and a street alone.\<close>

definition region_first :: place where
  "region_first =
     place_X\<lparr>address_components := Some [avenue, ile_de_france, paris, france]\<rparr>"

definition street_only :: place where
  "street_only = place_X\<lparr>address_components := Some [avenue]\<rparr>"

lemmas sample_defs =
  avenue_def paris_def ile_de_france_def france_def eiffel_def eiffel_full_address_def
  eiffel_no_geometry_def place_X_def place_X_empty_id_def typed_text_def region_first_def
  street_only_def

section \<open>City and country extraction\<close>

lemma sample_tags:
  "tagged ''locality'' paris"
  "tagged ''administrative_area_level_1'' ile_de_france"
  "tagged ''country'' france"
  "\<not> tagged ''locality'' avenue"
  "\<not> tagged ''administrative_area_level_1'' avenue"
  "\<not> tagged ''country'' avenue"
  "\<not> tagged ''country'' paris"
  "\<not> tagged ''country'' ile_de_france"
  by (simp_all add: tagged_def array_includes_def sample_defs)

lemma extractCity_loop_no_match:
  "\<forall>c\<in>set cs. \<not> tagged ''locality'' c \<and> \<not> tagged ''administrative_area_level_1'' c \<Longrightarrow>
   extractCity_loop cs acc = acc"
  by (induction cs) (simp_all add: tagged_def)

lemma extractCity_loop_first:
  "\<forall>x\<in>set pre. \<not> tagged ''locality'' x \<and> \<not> tagged ''administrative_area_level_1'' x \<Longrightarrow>
   tagged ''locality'' c \<or> tagged ''administrative_area_level_1'' c \<Longrightarrow>
   extractCity_loop (pre @ c # post) acc = long_name c"
  by (induction pre) (auto simp: tagged_def)

text \<open>
  Claim C2. The City Extractor returns the name of the first component, in array order,
  tagged \<^verbatim>\<open>locality\<close> or \<^verbatim>\<open>administrative_area_level_1\<close>, whatever follows it (so a
  \<^verbatim>\<open>locality\<close> component wins over any later \<^verbatim>\<open>administrative_area_level_1\<close> one); it
  returns the empty string when the record has no component sequence or no component
  matches.
\<close>

theorem extractCity_first_match:
  "(address_components p = None \<longrightarrow> extractCity p = '''') \<and>
   (\<forall>cs. address_components p = Some cs \<and>
      (\<forall>c\<in>set cs. \<not> tagged ''locality'' c \<and> \<not> tagged ''administrative_area_level_1'' c)
      \<longrightarrow> extractCity p = '''') \<and>
   (\<forall>pre c post. address_components p = Some (pre @ c # post) \<and>
      (\<forall>x\<in>set pre. \<not> tagged ''locality'' x \<and> \<not> tagged ''administrative_area_level_1'' x) \<and>
      (tagged ''locality'' c \<or> tagged ''administrative_area_level_1'' c)
      \<longrightarrow> extractCity p = long_name c)"
proof (intro conjI allI impI)
  assume "address_components p = None"
  then show "extractCity p = ''''" by (simp add: extractCity_def)
next
  fix cs
  assume "address_components p = Some cs \<and>
      (\<forall>c\<in>set cs. \<not> tagged ''locality'' c \<and> \<not> tagged ''administrative_area_level_1'' c)"
  then show "extractCity p = ''''"
    by (simp add: extractCity_def extractCity_loop_no_match)
next
  fix pre c post
  assume h: "address_components p = Some (pre @ c # post) \<and>
      (\<forall>x\<in>set pre. \<not> tagged ''locality'' x \<and> \<not> tagged ''administrative_area_level_1'' x) \<and>
      (tagged ''locality'' c \<or> tagged ''administrative_area_level_1'' c)"
  then have "extractCity_loop (pre @ c # post) '''' = long_name c"
    by (intro extractCity_loop_first) simp_all
  with h show "extractCity p = long_name c" by (simp add: extractCity_def)
qed

theorem extractCity_first_match_witness:
  "extractCity typed_text = '''' \<and>
   extractCity street_only = '''' \<and>
   address_components eiffel_full_address = Some ([avenue] @ paris # [ile_de_france, france]) \<and>
   tagged ''locality'' paris \<and> tagged ''administrative_area_level_1'' ile_de_france \<and>
   extractCity eiffel_full_address = ''Paris'' \<and>
   address_components region_first = Some ([avenue] @ ile_de_france # [paris, france]) \<and>
   extractCity region_first = ''Ile-de-France''"
proof -
  note t = sample_tags
  have a: "address_components typed_text = None"
    by (simp add: typed_text_def)
  have b: "address_components street_only = Some [avenue]"
    by (simp add: street_only_def)
  have c: "address_components eiffel_full_address =
             Some ([avenue] @ paris # [ile_de_france, france])"
    by (simp add: eiffel_full_address_def)
  have d: "address_components region_first = Some ([avenue] @ ile_de_france # [paris, france])"
    by (simp add: region_first_def)
  have 1: "extractCity typed_text = ''''"
    using extractCity_first_match [of typed_text] a by blast
  have 2: "extractCity street_only = ''''"
    using extractCity_first_match [of street_only] b t by auto
  have "extractCity eiffel_full_address = long_name paris"
    using extractCity_first_match [of eiffel_full_address] c t
    by (metis empty_iff empty_set set_ConsD)
  then have 3: "extractCity eiffel_full_address = ''Paris''"
    by (simp add: paris_def)
  have "extractCity region_first = long_name ile_de_france"
    using extractCity_first_match [of region_first] d t
    by (metis empty_iff empty_set set_ConsD)
  then have 4: "extractCity region_first = ''Ile-de-France''"
    by (simp add: ile_de_france_def)
  from 1 2 3 4 c d t show ?thesis by simp
qed

lemma extractCountry_loop_no_match:
  "\<forall>c\<in>set cs. \<not> tagged ''country'' c \<Longrightarrow> extractCountry_loop cs acc = acc"
  by (induction cs) (simp_all add: tagged_def)

lemma extractCountry_loop_first:
  "\<forall>x\<in>set pre. \<not> tagged ''country'' x \<Longrightarrow> tagged ''country'' c \<Longrightarrow>
   extractCountry_loop (pre @ c # post) acc = long_name c"
  by (induction pre) (auto simp: tagged_def)

text \<open>
  Claim C3. When the component sequence holds a component tagged \<^verbatim>\<open>country\<close>, the Country
  Extractor returns the name of the first such component; it returns the empty string
  when the record has no component sequence or no component is tagged \<^verbatim>\<open>country\<close>.
\<close>

theorem extractCountry_first_match:
  "(address_components p = None \<longrightarrow> extractCountry p = '''') \<and>
   (\<forall>cs. address_components p = Some cs \<and> (\<forall>c\<in>set cs. \<not> tagged ''country'' c)
      \<longrightarrow> extractCountry p = '''') \<and>
   (\<forall>pre c post. address_components p = Some (pre @ c # post) \<and>
      (\<forall>x\<in>set pre. \<not> tagged ''country'' x) \<and> tagged ''country'' c
      \<longrightarrow> extractCountry p = long_name c)"
proof -
  have none: "extractCountry p = ''''" if "address_components p = None"
    using that by (simp add: extractCountry_def)
  have no_match: "extractCountry p = ''''"
    if "address_components p = Some cs" "\<forall>c\<in>set cs. \<not> tagged ''country'' c" for cs
    using that by (simp add: extractCountry_def extractCountry_loop_no_match)
  have first: "extractCountry p = long_name c"
    if "address_components p = Some (pre @ c # post)"
       "\<forall>x\<in>set pre. \<not> tagged ''country'' x" "tagged ''country'' c" for pre c post
    using that by (simp add: extractCountry_def extractCountry_loop_first)
  from none no_match first show ?thesis by blast
qed

theorem extractCountry_first_match_witness:
  "extractCountry typed_text = '''' \<and>
   extractCountry street_only = '''' \<and>
   address_components eiffel_full_address = Some ([avenue, paris, ile_de_france] @ france # []) \<and>
   tagged ''country'' france \<and>
   extractCountry eiffel_full_address = ''France''"
proof -
  note t = sample_tags
  have a: "address_components typed_text = None"
    by (simp add: typed_text_def)
  have b: "address_components street_only = Some [avenue]"
    by (simp add: street_only_def)
  have c: "address_components eiffel_full_address =
             Some ([avenue, paris, ile_de_france] @ france # [])"
    by (simp add: eiffel_full_address_def)
  have pre: "\<forall>x\<in>set [avenue, paris, ile_de_france]. \<not> tagged ''country'' x"
    using t by simp
  have 1: "extractCountry typed_text = ''''"
    using extractCountry_first_match [of typed_text] a by blast
  have 2: "extractCountry street_only = ''''"
    using extractCountry_first_match [of street_only] b t by auto
  have "extractCountry eiffel_full_address = long_name france"
    using extractCountry_first_match [of eiffel_full_address] c pre t(3) by blast
  then have 3: "extractCountry eiffel_full_address = ''France''"
    by (simp add: france_def)
  from 1 2 3 c t show ?thesis by simp
qed

section \<open>The identifier of a place\<close>

lemma Number_toString_one: "Number_toString (Decimal 10 (- 1)) = ''1''"
  by code_simp

lemma Number_toString_two: "Number_toString (Decimal 20 (- 1)) = ''2''"
  by code_simp

lemma placeIdentifier_truthy:
  "place_id p = Some i \<Longrightarrow> i \<noteq> [] \<Longrightarrow> placeIdentifier p = Inr i"
  by (simp add: placeIdentifier_def truthy_def)

lemma placeIdentifier_falsy:
  "place_id p = None \<or> place_id p = Some [] \<Longrightarrow> placeIdentifier p = fallback_key p"
  by (auto simp: placeIdentifier_def truthy_def)

lemma fallback_key_geometry:
  "geometry p = Some g \<Longrightarrow>
   fallback_key p =
     Inr (name p @ ''_'' @ Number_toString (lat (location g)) @ ''_'' @
          Number_toString (lng (location g)))"
  by (simp add: fallback_key_def geometry_location_def)

lemma fallback_key_no_geometry: "geometry p = None \<Longrightarrow> fallback_key p = Inl TypeError"
  by (simp add: fallback_key_def geometry_location_def)

lemma placeIdentifier_place_X: "placeIdentifier place_X = Inr ''X_1_2''"
  by (simp add: placeIdentifier_falsy fallback_key_geometry place_X_def
      Number_toString_one Number_toString_two del: Number_toString.simps)

text \<open>
  Claim C4, as amended. The computed identifier is the record's \<^verbatim>\<open>place_id\<close> when that is
  present and not the empty string; when it is absent or empty and the record carries
  geometry, the identifier is the name, the latitude and the longitude joined by
  underscores. The record with no \<^verbatim>\<open>place_id\<close>, name X, lat 1.0 and lng 2.0 gets the
  identifier \<^verbatim>\<open>X_1_2\<close>.
\<close>

theorem placeIdentifier_derivation:
  "(\<forall>i. place_id p = Some i \<and> i \<noteq> [] \<longrightarrow> placeIdentifier p = Inr i) \<and>
   (\<forall>g. (place_id p = None \<or> place_id p = Some []) \<and> geometry p = Some g \<longrightarrow>
      placeIdentifier p =
        Inr (name p @ ''_'' @ Number_toString (lat (location g)) @ ''_'' @
             Number_toString (lng (location g)))) \<and>
   placeIdentifier
     \<lparr>place_id = None, name = ''X'',
      geometry = Some \<lparr>location = \<lparr>lat = Decimal 10 (- 1), lng = Decimal 20 (- 1)\<rparr>\<rparr>,
      address_components = ac\<rparr> = Inr ''X_1_2''"
proof (intro conjI allI impI)
  fix i
  assume "place_id p = Some i \<and> i \<noteq> []"
  then show "placeIdentifier p = Inr i"
    by (simp add: placeIdentifier_truthy)
next
  fix g
  assume "(place_id p = None \<or> place_id p = Some []) \<and> geometry p = Some g"
  then show "placeIdentifier p =
        Inr (name p @ ''_'' @ Number_toString (lat (location g)) @ ''_'' @
             Number_toString (lng (location g)))"
    by (simp add: placeIdentifier_falsy fallback_key_geometry)
next
  show "placeIdentifier
     \<lparr>place_id = None, name = ''X'',
      geometry = Some \<lparr>location = \<lparr>lat = Decimal 10 (- 1), lng = Decimal 20 (- 1)\<rparr>\<rparr>,
      address_components = ac\<rparr> = Inr ''X_1_2''"
    by (simp add: placeIdentifier_falsy fallback_key_geometry
        Number_toString_one Number_toString_two del: Number_toString.simps)
qed

theorem placeIdentifier_derivation_witness:
  "place_id eiffel = Some ''p1'' \<and> ''p1'' \<noteq> [] \<and> placeIdentifier eiffel = Inr ''p1'' \<and>
   place_id place_X_empty_id = Some [] \<and>
   geometry place_X_empty_id =
     Some \<lparr>location = \<lparr>lat = Decimal 10 (- 1), lng = Decimal 20 (- 1)\<rparr>\<rparr> \<and>
   placeIdentifier place_X_empty_id = Inr ''X_1_2''"
proof -
  have a: "place_id eiffel = Some ''p1'' \<and> ''p1'' \<noteq> []"
    by (simp add: eiffel_def)
  have b: "(place_id place_X_empty_id = None \<or> place_id place_X_empty_id = Some []) \<and>
           geometry place_X_empty_id =
             Some \<lparr>location = \<lparr>lat = Decimal 10 (- 1), lng = Decimal 20 (- 1)\<rparr>\<rparr>"
    by (simp add: place_X_empty_id_def place_X_def)
  have 1: "placeIdentifier eiffel = Inr ''p1''"
    using placeIdentifier_derivation [of eiffel] a by blast
  have "placeIdentifier place_X_empty_id =
          Inr (name place_X_empty_id @ ''_'' @ Number_toString (Decimal 10 (- 1)) @ ''_'' @
               Number_toString (Decimal 20 (- 1)))"
    using placeIdentifier_derivation [of place_X_empty_id] b by fastforce
  then have 2: "placeIdentifier place_X_empty_id = Inr ''X_1_2''"
    by (simp add: place_X_empty_id_def place_X_def Number_toString_one Number_toString_two
        del: Number_toString.simps)
  have c: "place_id place_X_empty_id = Some []"
    by (simp add: place_X_empty_id_def)
  from a b c 1 2 show ?thesis by simp
qed

text \<open>
  The claim as stated fails: a \<^verbatim>\<open>place_id\<close> that is present and empty is not the
  identifier, and a record without \<^verbatim>\<open>place_id\<close> and without geometry has no identifier.
\<close>

theorem placeIdentifier_present_counterexample:
  "place_id place_X_empty_id = Some '''' \<and>
   placeIdentifier place_X_empty_id \<noteq> Inr '''' \<and>
   placeIdentifier place_X_empty_id = Inr ''X_1_2'' \<and>
   place_id typed_text = None \<and>
   placeIdentifier typed_text = Inl TypeError"
proof -
  have "placeIdentifier place_X_empty_id = Inr ''X_1_2''"
    by (simp add: placeIdentifier_falsy fallback_key_geometry place_X_empty_id_def place_X_def
        Number_toString_one Number_toString_two del: Number_toString.simps)
  moreover have "placeIdentifier typed_text = Inl TypeError"
    by (simp add: placeIdentifier_falsy fallback_key_no_geometry typed_text_def)
  moreover have "place_id place_X_empty_id = Some ''''" "place_id typed_text = None"
    by (simp_all add: place_X_empty_id_def place_X_def typed_text_def)
  ultimately show ?thesis by simp
qed

text \<open>
  Claim C10. A \<^verbatim>\<open>place_id\<close> that is present and equal to the empty string counts as
  absent: the identifier is computed exactly as for the record without \<^verbatim>\<open>place_id\<close>,
  that is, by the fallback key made of name, latitude and longitude.
\<close>

theorem placeIdentifier_empty_place_id:
  "placeIdentifier (p\<lparr>place_id := Some ''''\<rparr>) = placeIdentifier (p\<lparr>place_id := None\<rparr>) \<and>
   placeIdentifier (p\<lparr>place_id := Some ''''\<rparr>) = fallback_key p \<and>
   (\<forall>g. geometry p = Some g \<longrightarrow>
      placeIdentifier (p\<lparr>place_id := Some ''''\<rparr>) =
        Inr (name p @ ''_'' @ Number_toString (lat (location g)) @ ''_'' @
             Number_toString (lng (location g)))) \<and>
   fst (place_changed (p\<lparr>place_id := Some ''''\<rparr>) s) = fst (place_changed (p\<lparr>place_id := None\<rparr>) s) \<and>
   seenPlaces (snd (place_changed (p\<lparr>place_id := Some ''''\<rparr>) s)) =
     seenPlaces (snd (place_changed (p\<lparr>place_id := None\<rparr>) s))"
proof -
  have fk: "fallback_key (p\<lparr>place_id := v\<rparr>) = fallback_key p" for v
    by (simp add: fallback_key_def geometry_location_def split: option.splits)
  have 1: "placeIdentifier (p\<lparr>place_id := Some ''''\<rparr>) = fallback_key p"
    by (simp add: placeIdentifier_def truthy_def fk)
  have 2: "placeIdentifier (p\<lparr>place_id := None\<rparr>) = fallback_key p"
    by (simp add: placeIdentifier_def truthy_def fk)
  have 3: "placeIdentifier (p\<lparr>place_id := Some ''''\<rparr>) =
        Inr (name p @ ''_'' @ Number_toString (lat (location g)) @ ''_'' @
             Number_toString (lng (location g)))" if "geometry p = Some g" for g
    using that 1 by (simp add: fallback_key_geometry)
  have pd: "placeData_of (p\<lparr>place_id := v\<rparr>) =
              map_sum id (\<lambda>d. d\<lparr>payload_place_id := v\<rparr>) (placeData_of p)" for v
    by (simp add: placeData_of_def geometry_location_def extractCity_def extractCountry_def
        split: option.splits)
  have 4: "fst (place_changed (p\<lparr>place_id := Some ''''\<rparr>) s) =
           fst (place_changed (p\<lparr>place_id := None\<rparr>) s)"
    by (cases "placeData_of p")
      (simp_all add: place_changed_def 1 2 pd Let_def sendPlaceToBackend_def split: sum.splits)
  have 5: "seenPlaces (snd (place_changed (p\<lparr>place_id := Some ''''\<rparr>) s)) =
           seenPlaces (snd (place_changed (p\<lparr>place_id := None\<rparr>) s))"
    by (cases "placeData_of p")
      (simp_all add: place_changed_def 1 2 pd Let_def sendPlaceToBackend_def split: sum.splits)
  from 1 2 3 4 5 show ?thesis by simp
qed

theorem placeIdentifier_empty_place_id_witness:
  "geometry place_X =
     Some \<lparr>location = \<lparr>lat = Decimal 10 (- 1), lng = Decimal 20 (- 1)\<rparr>\<rparr> \<and>
   placeIdentifier (place_X\<lparr>place_id := Some ''''\<rparr>) = Inr ''X_1_2''"
proof -
  have g: "geometry place_X =
     Some \<lparr>location = \<lparr>lat = Decimal 10 (- 1), lng = Decimal 20 (- 1)\<rparr>\<rparr>"
    by (simp add: place_X_def)
  have "placeIdentifier (place_X\<lparr>place_id := Some ''''\<rparr>) =
          Inr (name place_X @ ''_'' @ Number_toString (Decimal 10 (- 1)) @ ''_'' @
               Number_toString (Decimal 20 (- 1)))"
    using placeIdentifier_empty_place_id [of place_X] g by fastforce
  then have "placeIdentifier (place_X\<lparr>place_id := Some ''''\<rparr>) = Inr ''X_1_2''"
    by (simp add: place_X_def Number_toString_one Number_toString_two
        del: Number_toString.simps)
  with g show ?thesis by simp
qed

section \<open>The listener\<close>

lemma place_changed_seen:
  "placeIdentifier p = Inr k \<Longrightarrow> k \<in> seenPlaces s \<Longrightarrow> place_changed p s = (None, s)"
  by (simp add: place_changed_def)

lemma place_changed_no_identifier:
  "placeIdentifier p = Inl e \<Longrightarrow> place_changed p s = (Some e, s)"
  by (simp add: place_changed_def)

lemma placeData_of_geometry:
  "geometry p = Some g \<Longrightarrow>
   placeData_of p =
     Inr \<lparr>destination_name = name p, city = extractCity p, country = extractCountry p,
          coordinates = [lat (location g), lng (location g)],
          payload_place_id = place_id p\<rparr>"
  by (simp add: placeData_of_def geometry_location_def)

lemma placeData_of_no_geometry: "geometry p = None \<Longrightarrow> placeData_of p = Inl TypeError"
  by (simp add: placeData_of_def geometry_location_def)

lemma place_changed_new:
  "placeIdentifier p = Inr k \<Longrightarrow> k \<notin> seenPlaces s \<Longrightarrow> geometry p = Some g \<Longrightarrow>
   place_changed p s =
     (None,
      \<lparr>seenPlaces = insert k (seenPlaces s),
       backend = backend s @
         [\<lparr>destination_name = name p, city = extractCity p, country = extractCountry p,
           coordinates = [lat (location g), lng (location g)],
           payload_place_id = place_id p\<rparr>]\<rparr>)"
  by (simp add: place_changed_def placeData_of_geometry sendPlaceToBackend_def)

lemma place_changed_new_no_geometry:
  "placeIdentifier p = Inr k \<Longrightarrow> k \<notin> seenPlaces s \<Longrightarrow> geometry p = None \<Longrightarrow>
   place_changed p s = (Some TypeError, s\<lparr>seenPlaces := insert k (seenPlaces s)\<rparr>)"
  by (simp add: place_changed_def placeData_of_no_geometry)

text \<open>
  Claim C5. When the computed identifier is already in the seen-set the listener does
  nothing: it throws nothing, and the session (the set and the calls made to the backend)
  is the one before the event.
\<close>

theorem place_changed_duplicate_noop:
  "placeIdentifier p = Inr k \<Longrightarrow> k \<in> seenPlaces s \<Longrightarrow>
   fst (place_changed p s) = None \<and>
   backend (snd (place_changed p s)) = backend s \<and>
   seenPlaces (snd (place_changed p s)) = seenPlaces s \<and>
   snd (place_changed p s) = s"
  by (simp add: place_changed_seen)

theorem place_changed_duplicate_noop_witness:
  "placeIdentifier eiffel = Inr ''p1'' \<and>
   ''p1'' \<in> seenPlaces (snd (place_changed eiffel initializeGooglePlaces)) \<and>
   place_changed eiffel (snd (place_changed eiffel initializeGooglePlaces)) =
     (None, snd (place_changed eiffel initializeGooglePlaces))"
proof -
  have i: "placeIdentifier eiffel = Inr ''p1''"
    by (simp add: placeIdentifier_truthy eiffel_def)
  have "place_changed eiffel initializeGooglePlaces =
          (None, \<lparr>seenPlaces = insert ''p1'' {}, backend = [] @
             [\<lparr>destination_name = name eiffel, city = extractCity eiffel,
               country = extractCountry eiffel,
               coordinates = [Decimal 488584 (- 4), Decimal 22945 (- 4)],
               payload_place_id = place_id eiffel\<rparr>]\<rparr>)"
    using place_changed_new [OF i, of initializeGooglePlaces]
    by (simp add: initializeGooglePlaces_def eiffel_def)
  then have m: "''p1'' \<in> seenPlaces (snd (place_changed eiffel initializeGooglePlaces))"
    by simp
  from place_changed_duplicate_noop [OF i m] i m show ?thesis
    by (simp add: prod_eq_iff)
qed

lemma sample_identifiers:
  "placeIdentifier eiffel = Inr ''p1''"
  "placeIdentifier eiffel_no_geometry = Inr ''p1''"
  "placeIdentifier place_X = Inr ''X_1_2''"
  "placeIdentifier typed_text = Inl TypeError"
  by (simp_all add: placeIdentifier_truthy placeIdentifier_place_X placeIdentifier_falsy
      fallback_key_no_geometry eiffel_def eiffel_no_geometry_def typed_text_def)

lemma sample_extracts:
  "extractCity eiffel = ''Paris''" "extractCountry eiffel = ''France''"
  "extractCity place_X = ''''" "extractCountry place_X = ''''"
  by (simp_all add: extractCity_def extractCountry_def array_includes_def eiffel_def place_X_def)

text \<open>
  Claim C6, as amended. When the computed identifier is not yet in the seen-set and the
  record carries geometry, the listener inserts the identifier into the set and makes one
  call to the backend, with the payload made of the name, the extracted city and country,
  the pair of coordinates and the record's \<^verbatim>\<open>place_id\<close>. For the Eiffel Tower record of
  the scenario, in a fresh session, that payload is the one the scenario gives.
\<close>

theorem place_changed_first_selection:
  "(\<forall>k g. placeIdentifier p = Inr k \<and> k \<notin> seenPlaces s \<and> geometry p = Some g \<longrightarrow>
      place_changed p s =
        (None,
         \<lparr>seenPlaces = insert k (seenPlaces s),
          backend = backend s @
            [\<lparr>destination_name = name p, city = extractCity p, country = extractCountry p,
              coordinates = [lat (location g), lng (location g)],
              payload_place_id = place_id p\<rparr>]\<rparr>)) \<and>
   place_changed eiffel initializeGooglePlaces =
     (None,
      \<lparr>seenPlaces = {''p1''},
       backend =
         [\<lparr>destination_name = ''Eiffel Tower'', city = ''Paris'', country = ''France'',
           coordinates = [Decimal 488584 (- 4), Decimal 22945 (- 4)],
           payload_place_id = Some ''p1''\<rparr>]\<rparr>)"
proof -
  have "place_changed eiffel initializeGooglePlaces =
     (None,
      \<lparr>seenPlaces = insert ''p1'' (seenPlaces initializeGooglePlaces),
       backend = backend initializeGooglePlaces @
         [\<lparr>destination_name = name eiffel, city = extractCity eiffel,
           country = extractCountry eiffel,
           coordinates = [Decimal 488584 (- 4), Decimal 22945 (- 4)],
           payload_place_id = place_id eiffel\<rparr>]\<rparr>)"
    using place_changed_new [OF sample_identifiers(1), of initializeGooglePlaces]
    by (simp add: initializeGooglePlaces_def eiffel_def)
  then have "place_changed eiffel initializeGooglePlaces =
     (None,
      \<lparr>seenPlaces = {''p1''},
       backend =
         [\<lparr>destination_name = ''Eiffel Tower'', city = ''Paris'', country = ''France'',
           coordinates = [Decimal 488584 (- 4), Decimal 22945 (- 4)],
           payload_place_id = Some ''p1''\<rparr>]\<rparr>)"
    by (simp add: sample_extracts initializeGooglePlaces_def) (simp add: eiffel_def)
  then show ?thesis
    by (simp add: place_changed_new)
qed

theorem place_changed_first_selection_witness:
  "placeIdentifier place_X = Inr ''X_1_2'' \<and>
   ''X_1_2'' \<notin> seenPlaces initializeGooglePlaces \<and>
   geometry place_X = Some \<lparr>location = \<lparr>lat = Decimal 10 (- 1), lng = Decimal 20 (- 1)\<rparr>\<rparr> \<and>
   place_changed place_X initializeGooglePlaces =
     (None,
      \<lparr>seenPlaces = {''X_1_2''},
       backend =
         [\<lparr>destination_name = ''X'', city = '''', country = '''',
           coordinates = [Decimal 10 (- 1), Decimal 20 (- 1)],
           payload_place_id = None\<rparr>]\<rparr>)"
proof -
  have a: "placeIdentifier place_X = Inr ''X_1_2'' \<and>
           ''X_1_2'' \<notin> seenPlaces initializeGooglePlaces \<and>
           geometry place_X =
             Some \<lparr>location = \<lparr>lat = Decimal 10 (- 1), lng = Decimal 20 (- 1)\<rparr>\<rparr>"
    by (simp add: sample_identifiers initializeGooglePlaces_def) (simp add: place_X_def)
  have "place_changed place_X initializeGooglePlaces =
     (None,
      \<lparr>seenPlaces = insert ''X_1_2'' (seenPlaces initializeGooglePlaces),
       backend = backend initializeGooglePlaces @
         [\<lparr>destination_name = name place_X, city = extractCity place_X,
           country = extractCountry place_X,
           coordinates = [lat (location \<lparr>location = \<lparr>lat = Decimal 10 (- 1), lng = Decimal 20 (- 1)\<rparr>\<rparr>),
                          lng (location \<lparr>location = \<lparr>lat = Decimal 10 (- 1), lng = Decimal 20 (- 1)\<rparr>\<rparr>)],
           payload_place_id = place_id place_X\<rparr>]\<rparr>)"
    using place_changed_first_selection [of place_X initializeGooglePlaces] a by blast
  then have "place_changed place_X initializeGooglePlaces =
     (None,
      \<lparr>seenPlaces = {''X_1_2''},
       backend =
         [\<lparr>destination_name = ''X'', city = '''', country = '''',
           coordinates = [Decimal 10 (- 1), Decimal 20 (- 1)],
           payload_place_id = None\<rparr>]\<rparr>)"
    by (simp add: sample_extracts initializeGooglePlaces_def) (simp add: place_X_def)
  with a show ?thesis by simp
qed

text \<open>
  The claim as stated fails on a record that has a \<^verbatim>\<open>place_id\<close> and no geometry: the
  identifier is new and is inserted, and then the listener throws before any call to the
  backend.
\<close>

theorem place_changed_first_selection_counterexample:
  "placeIdentifier eiffel_no_geometry = Inr ''p1'' \<and>
   ''p1'' \<notin> seenPlaces initializeGooglePlaces \<and>
   place_changed eiffel_no_geometry initializeGooglePlaces =
     (Some TypeError, \<lparr>seenPlaces = {''p1''}, backend = []\<rparr>)"
proof -
  have g: "geometry eiffel_no_geometry = None"
    by (simp add: eiffel_no_geometry_def)
  have n: "''p1'' \<notin> seenPlaces initializeGooglePlaces"
    by (simp add: initializeGooglePlaces_def)
  from place_changed_new_no_geometry [OF sample_identifiers(2) n g] n
  show ?thesis
    by (simp add: sample_identifiers initializeGooglePlaces_def)
qed

text \<open>
  Claim C9. The first selection of a record without geometry makes the listener throw,
  with no call to the backend, also when the record carries a \<^verbatim>\<open>place_id\<close>: then the
  identifier has already been put into the seen-set when the payload's coordinates are
  read.
\<close>

theorem place_changed_no_geometry_throws:
  "geometry p = None \<Longrightarrow>
   ((\<forall>k. placeIdentifier p = Inr k \<longrightarrow> k \<notin> seenPlaces s) \<longrightarrow>
      fst (place_changed p s) = Some TypeError \<and>
      backend (snd (place_changed p s)) = backend s) \<and>
   (\<forall>i. place_id p = Some i \<and> i \<noteq> [] \<and> i \<notin> seenPlaces s \<longrightarrow>
      place_changed p s = (Some TypeError, s\<lparr>seenPlaces := insert i (seenPlaces s)\<rparr>))"
proof (intro conjI allI impI)
  assume g: "geometry p = None"
    and new: "\<forall>k. placeIdentifier p = Inr k \<longrightarrow> k \<notin> seenPlaces s"
  show "fst (place_changed p s) = Some TypeError"
  proof (cases "placeIdentifier p")
    case (Inl e)
    then show ?thesis
      by (cases e) (simp add: place_changed_no_identifier)
  next
    case (Inr k)
    with new g show ?thesis
      by (simp add: place_changed_new_no_geometry)
  qed
  show "backend (snd (place_changed p s)) = backend s"
  proof (cases "placeIdentifier p")
    case (Inl e)
    then show ?thesis
      by (simp add: place_changed_no_identifier)
  next
    case (Inr k)
    with new g show ?thesis
      by (simp add: place_changed_new_no_geometry)
  qed
next
  fix i
  assume g: "geometry p = None"
    and h: "place_id p = Some i \<and> i \<noteq> [] \<and> i \<notin> seenPlaces s"
  then have "placeIdentifier p = Inr i"
    by (simp add: placeIdentifier_truthy)
  with g h show "place_changed p s = (Some TypeError, s\<lparr>seenPlaces := insert i (seenPlaces s)\<rparr>)"
    by (simp add: place_changed_new_no_geometry)
qed

theorem place_changed_no_geometry_throws_witness:
  "geometry eiffel_no_geometry = None \<and>
   place_id eiffel_no_geometry = Some ''p1'' \<and>
   ''p1'' \<notin> seenPlaces initializeGooglePlaces \<and>
   place_changed eiffel_no_geometry initializeGooglePlaces =
     (Some TypeError, \<lparr>seenPlaces = {''p1''}, backend = []\<rparr>) \<and>
   geometry typed_text = None \<and>
   fst (place_changed typed_text initializeGooglePlaces) = Some TypeError \<and>
   backend (snd (place_changed typed_text initializeGooglePlaces)) = []"
proof -
  have g: "geometry eiffel_no_geometry = None" "geometry typed_text = None"
    by (simp_all add: eiffel_no_geometry_def typed_text_def)
  have a: "place_id eiffel_no_geometry = Some ''p1'' \<and> ''p1'' \<noteq> [] \<and>
           ''p1'' \<notin> seenPlaces initializeGooglePlaces"
    by (simp add: eiffel_no_geometry_def eiffel_def initializeGooglePlaces_def)
  have b: "\<forall>k. placeIdentifier typed_text = Inr k \<longrightarrow> k \<notin> seenPlaces initializeGooglePlaces"
    by (simp add: sample_identifiers)
  have "place_changed eiffel_no_geometry initializeGooglePlaces =
          (Some TypeError,
           initializeGooglePlaces\<lparr>seenPlaces := insert ''p1'' (seenPlaces initializeGooglePlaces)\<rparr>)"
    using place_changed_no_geometry_throws [OF g(1), of initializeGooglePlaces] a by blast
  then have 1: "place_changed eiffel_no_geometry initializeGooglePlaces =
     (Some TypeError, \<lparr>seenPlaces = {''p1''}, backend = []\<rparr>)"
    by (simp add: initializeGooglePlaces_def)
  have "fst (place_changed typed_text initializeGooglePlaces) = Some TypeError \<and>
        backend (snd (place_changed typed_text initializeGooglePlaces)) =
          backend initializeGooglePlaces"
    using place_changed_no_geometry_throws [OF g(2), of initializeGooglePlaces] b by blast
  then have 2: "fst (place_changed typed_text initializeGooglePlaces) = Some TypeError \<and>
        backend (snd (place_changed typed_text initializeGooglePlaces)) = []"
    by (simp add: initializeGooglePlaces_def)
  from g a 1 2 show ?thesis by simp
qed

text \<open>
  Claim C7. A record without \<^verbatim>\<open>place_id\<close> and without geometry exists, and on every such
  record the fallback key cannot be built: the identifier computation throws and so does
  the listener, leaving the session as it was. When the geometry is present the fallback
  key, and with it the identifier, is always computed.
\<close>

theorem fallback_key_needs_geometry:
  "(\<exists>p. place_id p = None \<and> geometry p = None \<and> fallback_key p = Inl TypeError \<and>
        placeIdentifier p = Inl TypeError \<and> place_changed p s = (Some TypeError, s)) \<and>
   (\<forall>p. \<not> truthy (place_id p) \<and> geometry p = None \<longrightarrow>
        fallback_key p = Inl TypeError \<and> placeIdentifier p = Inl TypeError \<and>
        place_changed p s = (Some TypeError, s)) \<and>
   (\<forall>p g. geometry p = Some g \<longrightarrow>
        (\<exists>k. fallback_key p = Inr k) \<and> (\<exists>k. placeIdentifier p = Inr k))"
proof -
  have fails: "fallback_key p = Inl TypeError \<and> placeIdentifier p = Inl TypeError \<and>
               place_changed p s = (Some TypeError, s)"
    if "\<not> truthy (place_id p) \<and> geometry p = None" for p
  proof -
    from that have "fallback_key p = Inl TypeError"
      by (simp add: fallback_key_no_geometry)
    moreover from that have "placeIdentifier p = fallback_key p"
      by (simp add: placeIdentifier_def)
    ultimately show ?thesis
      by (simp add: place_changed_no_identifier)
  qed
  have "\<not> truthy (place_id typed_text) \<and> geometry typed_text = None"
    by (simp add: truthy_def typed_text_def)
  from fails [OF this] have ex:
    "\<exists>p. place_id p = None \<and> geometry p = None \<and> fallback_key p = Inl TypeError \<and>
        placeIdentifier p = Inl TypeError \<and> place_changed p s = (Some TypeError, s)"
    by (intro exI [of _ typed_text]) (simp add: typed_text_def)
  have total: "(\<exists>k. fallback_key p = Inr k) \<and> (\<exists>k. placeIdentifier p = Inr k)"
    if "geometry p = Some g" for p g
    using that by (simp add: placeIdentifier_def fallback_key_geometry)
  from ex fails total show ?thesis by blast
qed

theorem fallback_key_needs_geometry_witness:
  "\<not> truthy (place_id typed_text) \<and> geometry typed_text = None \<and>
   placeIdentifier typed_text = Inl TypeError \<and>
   place_changed typed_text initializeGooglePlaces = (Some TypeError, initializeGooglePlaces) \<and>
   geometry place_X = Some \<lparr>location = \<lparr>lat = Decimal 10 (- 1), lng = Decimal 20 (- 1)\<rparr>\<rparr> \<and>
   (\<exists>k. fallback_key place_X = Inr k)"
proof -
  have a: "\<not> truthy (place_id typed_text) \<and> geometry typed_text = None"
    by (simp add: truthy_def typed_text_def)
  have b: "geometry place_X =
             Some \<lparr>location = \<lparr>lat = Decimal 10 (- 1), lng = Decimal 20 (- 1)\<rparr>\<rparr>"
    by (simp add: place_X_def)
  have 1: "placeIdentifier typed_text = Inl TypeError \<and>
           place_changed typed_text initializeGooglePlaces =
             (Some TypeError, initializeGooglePlaces)"
    using fallback_key_needs_geometry [of initializeGooglePlaces] a by blast
  have 2: "\<exists>k. fallback_key place_X = Inr k"
    using fallback_key_needs_geometry [of initializeGooglePlaces] b by blast
  from a b 1 2 show ?thesis by simp
qed

section \<open>The seen-set over a page session\<close>

lemma seenPlaces_place_changed:
  "seenPlaces (snd (place_changed p s)) =
     (case placeIdentifier p of Inl e \<Rightarrow> seenPlaces s | Inr k \<Rightarrow> insert k (seenPlaces s))"
  by (auto simp: place_changed_def sendPlaceToBackend_def Let_def split: sum.splits)

lemma seenPlaces_place_changed_mono: "seenPlaces s \<subseteq> seenPlaces (snd (place_changed p s))"
  by (auto simp: seenPlaces_place_changed split: sum.splits)

lemma seenPlaces_selections_mono: "seenPlaces s \<subseteq> seenPlaces (selections ps s)"
proof (induction ps arbitrary: s)
  case Nil
  show ?case by simp
next
  case (Cons p ps)
  have "seenPlaces s \<subseteq> seenPlaces (snd (place_changed p s))"
    by (rule seenPlaces_place_changed_mono)
  also have "\<dots> \<subseteq> seenPlaces (selections ps (snd (place_changed p s)))"
    by (rule Cons.IH)
  finally show ?case by simp
qed

text \<open>
  Claim C8. The seen-set is empty when the handler is installed; every selection event
  leaves a set that contains the one before it, whether the listener returns or throws,
  and so does every sequence of events; the call to the backend does not touch the set.
\<close>

theorem seenPlaces_grows:
  "seenPlaces initializeGooglePlaces = {} \<and>
   seenPlaces s \<subseteq> seenPlaces (snd (place_changed p s)) \<and>
   seenPlaces s \<subseteq> seenPlaces (selections ps s) \<and>
   seenPlaces (sendPlaceToBackend d s) = seenPlaces s"
  by (simp add: initializeGooglePlaces_def seenPlaces_place_changed_mono
      seenPlaces_selections_mono sendPlaceToBackend_def)

theorem seenPlaces_grows_witness:
  "seenPlaces (snd (place_changed eiffel initializeGooglePlaces)) = {''p1''} \<and>
   {''p1''} \<subseteq>
     seenPlaces (selections [eiffel_no_geometry, typed_text, place_X]
       (snd (place_changed eiffel initializeGooglePlaces)))"
proof -
  have "place_changed eiffel initializeGooglePlaces =
     (None,
      \<lparr>seenPlaces = insert ''p1'' (seenPlaces initializeGooglePlaces),
       backend = backend initializeGooglePlaces @
         [\<lparr>destination_name = name eiffel, city = extractCity eiffel,
           country = extractCountry eiffel,
           coordinates = [Decimal 488584 (- 4), Decimal 22945 (- 4)],
           payload_place_id = place_id eiffel\<rparr>]\<rparr>)"
    using place_changed_new [OF sample_identifiers(1), of initializeGooglePlaces]
    by (simp add: initializeGooglePlaces_def eiffel_def)
  then have 1: "seenPlaces (snd (place_changed eiffel initializeGooglePlaces)) = {''p1''}"
    by (simp add: initializeGooglePlaces_def)
  with seenPlaces_grows [of "snd (place_changed eiffel initializeGooglePlaces)" _
      "[eiffel_no_geometry, typed_text, place_X]"]
  show ?thesis by simp
qed

section \<open>At most one submission for an identifier\<close>

lemma submissions_for_seen: "k \<in> seenPlaces s \<Longrightarrow> submissions_for k ps s = 0"
proof (induction ps arbitrary: s)
  case Nil
  show ?case by simp
next
  case (Cons p ps)
  from Cons.prems seenPlaces_place_changed_mono [of s p]
  have later: "k \<in> seenPlaces (snd (place_changed p s))"
    by blast
  have "backend (snd (place_changed p s)) = backend s" if "placeIdentifier p = Inr k"
    using that Cons.prems by (simp add: place_changed_seen)
  with Cons.IH [OF later] show ?case by simp
qed

lemma submissions_for_unseen:
  "k \<notin> seenPlaces s \<Longrightarrow>
   submissions_for k ps s =
     (case find (\<lambda>p. placeIdentifier p = Inr k) ps of
        None \<Rightarrow> 0
      | Some p \<Rightarrow> if geometry p = None then 0 else 1)"
proof (induction ps arbitrary: s)
  case Nil
  show ?case by simp
next
  case (Cons p ps)
  show ?case
  proof (cases "placeIdentifier p = Inr k")
    case True
    have seen: "k \<in> seenPlaces (snd (place_changed p s))"
      using True by (simp add: seenPlaces_place_changed)
    have rest: "submissions_for k ps (snd (place_changed p s)) = 0"
      by (rule submissions_for_seen [OF seen])
    show ?thesis
    proof (cases "geometry p")
      case None
      with True Cons.prems rest show ?thesis
        by (simp add: place_changed_new_no_geometry)
    next
      case (Some g)
      with True Cons.prems rest show ?thesis
        by (simp add: place_changed_new)
    qed
  next
    case False
    then have "k \<notin> seenPlaces (snd (place_changed p s))"
      using Cons.prems by (auto simp: seenPlaces_place_changed split: sum.splits)
    from Cons.IH [OF this] False show ?thesis by simp
  qed
qed

text \<open>
  Claim C1, as amended. In a page session the events with one and the same computed
  identifier make at most one call to the backend; when two events of a sequence have equal
  computed identifiers and the first event of the sequence with that identifier carries
  geometry, they make exactly one.
\<close>

theorem submissions_for_at_most_once:
  "submissions_for k ps initializeGooglePlaces \<le> 1 \<and>
   (\<forall>i j. i < j \<and> j < length ps \<and>
      placeIdentifier (ps ! i) = Inr k \<and> placeIdentifier (ps ! j) = Inr k \<and>
      (\<forall>p. find (\<lambda>p. placeIdentifier p = Inr k) ps = Some p \<longrightarrow> geometry p \<noteq> None)
      \<longrightarrow> submissions_for k ps initializeGooglePlaces = 1)"
proof -
  have unseen: "k \<notin> seenPlaces initializeGooglePlaces"
    by (simp add: initializeGooglePlaces_def)
  note count = submissions_for_unseen [OF unseen, of ps]
  have le: "submissions_for k ps initializeGooglePlaces \<le> 1"
    unfolding count by (simp split: option.splits)
  have one: "submissions_for k ps initializeGooglePlaces = 1"
    if ij: "i < j" "j < length ps"
      and "placeIdentifier (ps ! i) = Inr k"
      and first: "\<forall>p. find (\<lambda>p. placeIdentifier p = Inr k) ps = Some p \<longrightarrow> geometry p \<noteq> None"
    for i j
  proof -
    from ij that(3) have "\<exists>p\<in>set ps. placeIdentifier p = Inr k"
      by (metis less_trans nth_mem)
    then obtain p where p: "find (\<lambda>p. placeIdentifier p = Inr k) ps = Some p"
      by (cases "find (\<lambda>p. placeIdentifier p = Inr k) ps") (auto simp: find_None_iff)
    with first have "geometry p \<noteq> None"
      by blast
    with p show ?thesis
      unfolding count by simp
  qed
  from le one show ?thesis by blast
qed

theorem submissions_for_at_most_once_witness:
  "(0::nat) < 2 \<and> 2 < length [eiffel, place_X, eiffel] \<and>
   placeIdentifier ([eiffel, place_X, eiffel] ! 0) = Inr ''p1'' \<and>
   placeIdentifier ([eiffel, place_X, eiffel] ! 2) = Inr ''p1'' \<and>
   find (\<lambda>p. placeIdentifier p = Inr ''p1'') [eiffel, place_X, eiffel] = Some eiffel \<and>
   geometry eiffel \<noteq> None \<and>
   submissions_for ''p1'' [eiffel, place_X, eiffel] initializeGooglePlaces = 1"
proof -
  have f: "find (\<lambda>p. placeIdentifier p = Inr ''p1'') [eiffel, place_X, eiffel] = Some eiffel"
    by (simp add: sample_identifiers)
  have g: "geometry eiffel \<noteq> None"
    by (simp add: eiffel_def)
  have h: "(0::nat) < 2 \<and> 2 < length [eiffel, place_X, eiffel] \<and>
      placeIdentifier ([eiffel, place_X, eiffel] ! 0) = Inr ''p1'' \<and>
      placeIdentifier ([eiffel, place_X, eiffel] ! 2) = Inr ''p1'' \<and>
      (\<forall>p. find (\<lambda>p. placeIdentifier p = Inr ''p1'') [eiffel, place_X, eiffel] = Some p
         \<longrightarrow> geometry p \<noteq> None)"
    using f g by (simp add: sample_identifiers)
  have "submissions_for ''p1'' [eiffel, place_X, eiffel] initializeGooglePlaces = 1"
    using submissions_for_at_most_once [of "''p1''" "[eiffel, place_X, eiffel]"] h by blast
  with f g h show ?thesis by simp
qed

text \<open>
  The claim as stated fails: when the first of two events with the identifier \<^verbatim>\<open>p1\<close>
  has no geometry, the listener throws after it has put \<^verbatim>\<open>p1\<close> into the seen-set, the
  second event is taken for a duplicate, and nothing is ever sent for \<^verbatim>\<open>p1\<close>.
\<close>

theorem submissions_for_exactly_once_counterexample:
  "placeIdentifier ([eiffel_no_geometry, eiffel] ! 0) = Inr ''p1'' \<and>
   placeIdentifier ([eiffel_no_geometry, eiffel] ! 1) = Inr ''p1'' \<and>
   submissions_for ''p1'' [eiffel_no_geometry, eiffel] initializeGooglePlaces = 0 \<and>
   backend (selections [eiffel_no_geometry, eiffel] initializeGooglePlaces) = []"
proof -
  have n: "''p1'' \<notin> seenPlaces initializeGooglePlaces"
    by (simp add: initializeGooglePlaces_def)
  have g: "geometry eiffel_no_geometry = None"
    by (simp add: eiffel_no_geometry_def)
  have 1: "place_changed eiffel_no_geometry initializeGooglePlaces =
             (Some TypeError, \<lparr>seenPlaces = {''p1''}, backend = []\<rparr>)"
    using place_changed_new_no_geometry [OF sample_identifiers(2) n g]
    by (simp add: initializeGooglePlaces_def)
  have 2: "place_changed eiffel \<lparr>seenPlaces = {''p1''}, backend = []\<rparr> =
             (None, \<lparr>seenPlaces = {''p1''}, backend = []\<rparr>)"
    by (rule place_changed_seen [OF sample_identifiers(1)]) simp
  show ?thesis
    by (simp add: sample_identifiers 1 2)
qed

end
